theory Spec2Isabelle
  imports Main
begin

section \<open>The WebRTC call service (class \<open>WebRTCService\<close>)\<close>

text \<open>
  The service is one JavaScript object driven by events: method calls of the user
  interface, events of the WebSocket it opened, a timer, and the outcome of the peer
  connection's \<open>setRemoteDescription\<close>. Every method and every event handler runs to
  completion before the next one starts, so each is a function from the state before to
  the state after. What the code does to the world around it (messages handed to the
  socket, tracks stopped, user handlers called, lines logged, promises settled, timers
  armed) is recorded in trace fields of the same state.

  Modelled are the constructor, \<open>connect\<close> with the four socket handlers,
  \<open>handleWebSocketMessage\<close>, \<open>createSession\<close> with its timeout, \<open>handleRemoteAnswer\<close>,
  \<open>setLanguages\<close>, \<open>endCall\<close>, \<open>on\<close> and \<open>disconnect\<close>. \<open>setupPeerConnection\<close>, which
  creates the peer connection and stores the local stream, is not: a state with a call in
  progress is given by its fields.
\<close>

subsection \<open>JavaScript values\<close>

text \<open>
  The values that reach the service: parsed JSON, plus \<open>undefined\<close> for a missing
  property. Numbers carry an integer payload; the service never computes with them.
\<close>

datatype js =
    Undefined
  | Null
  | Bool bool
  | Num int
  | Str string
  | Arr "js list"
  | Obj "(string \<times> js) list"

text \<open>Truthiness, as \<open>!x\<close> and \<open>x && y\<close> test it.\<close>

fun truthy :: "js \<Rightarrow> bool" where
  "truthy Undefined = False"
| "truthy Null = False"
| "truthy (Bool b) = b"
| "truthy (Num n) = (n \<noteq> 0)"
| "truthy (Str s) = (s \<noteq> [])"
| "truthy (Arr _) = True"
| "truthy (Obj _) = True"

text \<open>Reading a property \<open>data.k\<close> of a value that is neither null nor undefined.\<close>

fun get_prop :: "js \<Rightarrow> string \<Rightarrow> js" where
  "get_prop (Obj kvs) k = (case map_of kvs k of Some v \<Rightarrow> v | None \<Rightarrow> Undefined)"
| "get_prop _ k = Undefined"

datatype js_error =
    Error string
  | TypeError
  | SyntaxError
  | InvalidStateError

text \<open>How a synchronous call ends: it returns, or an exception leaves it.\<close>

datatype completion = Normal | Throw js_error

text \<open>
  The two errors \<open>createSession\<close> rejects with. The source builds them as
  \<open>new Error(message)\<close> with a Vietnamese message; the messages are written here without
  their diacritics.
\<close>

definition NotConnectedError :: js_error where
  "NotConnectedError = Error ''WebSocket chua ket noi''"

definition SessionTimeoutError :: js_error where
  "SessionTimeoutError = Error ''Tao phien het thoi gian cho''"

subsection \<open>Handlers and the callback table\<close>

text \<open>
  A slot of the callback table holds \<open>null\<close> (\<open>None\<close>) or a function. Three kinds of
  function occur:
  \<^item> \<open>User l\<close>: a function the consumer registered, known by a label. The service only
    calls it; the call is recorded in \<open>notified\<close>. A user function is taken to return
    normally and not to call back into the service.
  \<^item> \<open>Temp p orig\<close>: the temporary session-created handler that \<open>createSession\<close> installs,
    closed over the promise \<open>p\<close> it resolves and over the slot's previous content.
  \<^item> \<open>Pass orig\<close>: the forwarding function \<open>(sid) => { if (orig) orig(sid) }\<close> that the
    temporary handler installs when it runs.
\<close>

datatype handler =
    User nat
  | Temp nat "handler option"
  | Pass "handler option"

record callbacks =
  onConnectionStateChange :: "handler option"
  onTranscript :: "handler option"
  onTranslation :: "handler option"
  onError :: "handler option"
  onSessionCreated :: "handler option"
  onCallEstablished :: "handler option"
  onCallEnded :: "handler option"

subsection \<open>The state\<close>

datatype promise = Pending | Fulfilled js | Rejected js_error

datatype client_msg =
    create_session
  | process_offer js js
  | set_languages js js js
  | close_session js

datatype log = ConsoleLog string | ConsoleError string

text \<open>The ready state of a socket.\<close>

datatype ready_state = CONNECTING | OPEN | CLOSING | CLOSED

text \<open>The peer connection, as far as the service reads or changes it.\<close>

record rtc =
  remoteDescription :: "js option"

text \<open>
  The first seven fields are the fields of the object, in the constructor's order. A
  socket and a media track are known by a number. The remaining fields are the world:
  \<^item> \<open>promises\<close>: the promises created so far, by index;
  \<^item> \<open>timers\<close>: the timeouts armed by \<open>createSession\<close>: delay in milliseconds, the
    promise to reject and the slot content to restore;
  \<^item> \<open>sockets\<close>: for each socket created by \<open>connect\<close>, the promise \<open>connect\<close> returned;
  \<^item> \<open>readyState\<close>: the ready state of each socket, by number; a socket is CONNECTING
    from its creation until its open event;
  \<^item> \<open>sent\<close>: the messages handed by \<open>send\<close> to an open socket, with the socket;
  \<^item> \<open>stopped\<close>: the tracks on which \<open>stop()\<close> was called, one entry per call;
  \<^item> \<open>closed\<close>: the peer connections on which \<open>close()\<close> was called;
  \<^item> \<open>socket_closes\<close>: the sockets on which \<open>close()\<close> was called;
  \<^item> \<open>notified\<close>: the calls of user handlers, label and arguments;
  \<^item> \<open>console\<close>: the lines logged.
\<close>

record state =
  websocket :: "nat option"
  peerConnection :: "rtc option"
  localStream :: "nat list option"
  remoteStream :: "nat option"
  sessionId :: js
  isConnected :: bool
  callbacks :: callbacks
  promises :: "promise list"
  timers :: "(nat \<times> nat \<times> handler option) list"
  sockets :: "nat list"
  readyState :: "nat \<Rightarrow> ready_state"
  sent :: "(nat \<times> client_msg) list"
  stopped :: "nat list"
  closed :: "rtc list"
  socket_closes :: "nat list"
  notified :: "(nat \<times> js list) list"
  console :: "log list"

text \<open>The constructor, in a world where nothing has happened yet.\<close>

definition no_callbacks :: callbacks where
  "no_callbacks = \<lparr> onConnectionStateChange = None, onTranscript = None,
     onTranslation = None, onError = None, onSessionCreated = None,
     onCallEstablished = None, onCallEnded = None \<rparr>"

definition constructor :: state where
  "constructor = \<lparr> websocket = None, peerConnection = None, localStream = None,
     remoteStream = None, sessionId = Null, isConnected = False,
     callbacks = no_callbacks, promises = [], timers = [], sockets = [],
     readyState = (\<lambda>w. CONNECTING), sent = [],
     stopped = [], closed = [], socket_closes = [], notified = [], console = [] \<rparr>"

subsection \<open>Promises\<close>

text \<open>\<open>resolve\<close> and \<open>reject\<close>: only the first settlement of a promise counts.\<close>

definition settle :: "nat \<Rightarrow> promise \<Rightarrow> state \<Rightarrow> state" where
  "settle p v s =
     (if p < length (promises s) \<and> promises s ! p = Pending
      then s\<lparr>promises := (promises s)[p := v]\<rparr> else s)"

subsection \<open>Calling a handler\<close>

fun invoke :: "handler \<Rightarrow> js list \<Rightarrow> state \<Rightarrow> state" where
  "invoke (User l) args s = s\<lparr>notified := notified s @ [(l, args)]\<rparr>"
| "invoke (Temp p orig) args s =
     (let s1 = settle p (Fulfilled (case args of [] \<Rightarrow> Undefined | a # _ \<Rightarrow> a)) s;
          cur = onSessionCreated (callbacks s1);
          s2 = s1\<lparr>callbacks := (callbacks s1)\<lparr>onSessionCreated := Some (Pass cur)\<rparr>\<rparr>
      in case orig of None \<Rightarrow> s2 | Some h \<Rightarrow> invoke h args s2)"
| "invoke (Pass orig) args s =
     (case orig of None \<Rightarrow> s | Some h \<Rightarrow> invoke h args s)"

text \<open>\<open>if (slot) slot(args)\<close>.\<close>

definition notify :: "handler option \<Rightarrow> js list \<Rightarrow> state \<Rightarrow> state" where
  "notify slot args s = (case slot of None \<Rightarrow> s | Some h \<Rightarrow> invoke h args s)"

subsection \<open>\<open>on\<close>\<close>

definition event_names :: "string list" where
  "event_names = [''onConnectionStateChange'', ''onTranscript'', ''onTranslation'',
     ''onError'', ''onSessionCreated'', ''onCallEstablished'', ''onCallEnded'']"

text \<open>\<open>this.callbacks[eventName] = callback\<close>, for a name the table has.\<close>

definition assign_slot :: "string \<Rightarrow> handler option \<Rightarrow> callbacks \<Rightarrow> callbacks" where
  "assign_slot eventName callback t =
     (if eventName = ''onConnectionStateChange'' then t\<lparr>onConnectionStateChange := callback\<rparr>
      else if eventName = ''onTranscript'' then t\<lparr>onTranscript := callback\<rparr>
      else if eventName = ''onTranslation'' then t\<lparr>onTranslation := callback\<rparr>
      else if eventName = ''onError'' then t\<lparr>onError := callback\<rparr>
      else if eventName = ''onSessionCreated'' then t\<lparr>onSessionCreated := callback\<rparr>
      else if eventName = ''onCallEstablished'' then t\<lparr>onCallEstablished := callback\<rparr>
      else if eventName = ''onCallEnded'' then t\<lparr>onCallEnded := callback\<rparr>
      else t)"

definition on :: "string \<Rightarrow> handler option \<Rightarrow> state \<Rightarrow> state" where
  "on eventName callback s =
     (if eventName \<in> set event_names
      then s\<lparr>callbacks := assign_slot eventName callback (callbacks s)\<rparr>
      else s\<lparr>console := console s @ [ConsoleError (''Unknown event: '' @ eventName)]\<rparr>)"

subsection \<open>Sending on the socket\<close>

text \<open>
  \<open>this.websocket.send(message)\<close>. On a null socket the call throws a TypeError. On a
  socket that is still CONNECTING the socket's \<open>send\<close> throws an InvalidStateError. An
  OPEN socket takes the message. A socket that is CLOSING or CLOSED returns normally and
  drops the message.
\<close>

definition websocket_send :: "client_msg \<Rightarrow> state \<Rightarrow> completion \<times> state" where
  "websocket_send message s =
     (case websocket s of
        None \<Rightarrow> (Throw TypeError, s)
      | Some w \<Rightarrow>
          (case readyState s w of
             CONNECTING \<Rightarrow> (Throw InvalidStateError, s)
           | OPEN \<Rightarrow> (Normal, s\<lparr>sent := sent s @ [(w, message)]\<rparr>)
           | CLOSING \<Rightarrow> (Normal, s)
           | CLOSED \<Rightarrow> (Normal, s)))"

subsection \<open>\<open>connect\<close> and the socket's events\<close>

text \<open>
  \<open>connect\<close> creates the socket and attaches four handlers to it; it does not touch the
  connection flag. Whether \<open>new WebSocket(url)\<close> returns or throws is the platform's:
  \<open>constructed\<close> says which. The handlers are the functions \<open>ws_onopen\<close>, \<open>ws_onclose\<close>,
  \<open>ws_onerror\<close> and \<open>ws_onmessage\<close> below. An open or close event takes the socket it
  happens on: the platform sets that socket's ready state, and then the handler runs. The
  open and the error handler settle the promise that \<open>connect\<close> returned for the socket.
\<close>

definition connect :: "string \<Rightarrow> bool \<Rightarrow> state \<Rightarrow> nat \<times> state" where
  "connect url constructed s =
     (let p = length (promises s);
          s0 = s\<lparr>promises := promises s @ [Pending]\<rparr>
      in if constructed
         then (let w = length (sockets s0)
               in (p, s0\<lparr>websocket := Some w, sockets := sockets s0 @ [p],
                        readyState := (readyState s0)(w := CONNECTING)\<rparr>))
         else
           (let s1 = s0\<lparr>console := console s0 @ [ConsoleError ''Failed to create WebSocket:'']\<rparr>;
                s2 = notify (onError (callbacks s1)) [Str ''Khong the ket noi den may chu''] s1
            in (p, settle p (Rejected SyntaxError) s2)))"

definition ws_onopen :: "nat \<Rightarrow> state \<Rightarrow> state" where
  "ws_onopen w s =
     (if w < length (sockets s) then
        (let s1 = s\<lparr>readyState := (readyState s)(w := OPEN),
                     console := console s @ [ConsoleLog ''WebSocket connected''],
                     isConnected := True\<rparr>;
             s2 = notify (onConnectionStateChange (callbacks s1)) [Bool True] s1
         in settle (sockets s ! w) (Fulfilled Undefined) s2)
      else s)"

definition ws_onclose :: "nat \<Rightarrow> state \<Rightarrow> state" where
  "ws_onclose w s =
     (if w < length (sockets s) then
        (let s1 = s\<lparr>readyState := (readyState s)(w := CLOSED),
                     console := console s @ [ConsoleLog ''WebSocket disconnected''],
                     isConnected := False\<rparr>
         in notify (onConnectionStateChange (callbacks s1)) [Bool False] s1)
      else s)"

definition ws_onerror :: "nat \<Rightarrow> state \<Rightarrow> state" where
  "ws_onerror w s =
     (if w < length (sockets s) then
        (let s1 = s\<lparr>console := console s @ [ConsoleError ''WebSocket error:'']\<rparr>;
             s2 = notify (onError (callbacks s1)) [Str ''Loi ket noi WebSocket''] s1
         in settle (sockets s ! w) (Rejected (Error ''error event'')) s2)
      else s)"

subsection \<open>\<open>handleRemoteAnswer\<close>\<close>

text \<open>
  The method is asynchronous: it awaits the peer connection's \<open>setRemoteDescription\<close>.
  Whether building the description and applying it succeeds is the peer connection's
  decision, given as \<open>accepted\<close>; the call and its continuation are one step here. When it
  succeeds, the peer connection holds the new description.
\<close>

definition handleRemoteAnswer :: "bool \<Rightarrow> js \<Rightarrow> state \<Rightarrow> state" where
  "handleRemoteAnswer accepted answer s =
     (case peerConnection s of
        None \<Rightarrow> s\<lparr>console := console s @ [ConsoleError ''Peer connection not established'']\<rparr>
      | Some pc \<Rightarrow>
          if accepted
          then s\<lparr>peerConnection := Some (pc\<lparr>remoteDescription := Some answer\<rparr>),
                 console := console s @ [ConsoleLog ''Remote description set successfully'']\<rparr>
          else
            (let s1 = s\<lparr>console := console s @ [ConsoleError ''Error handling remote answer:'']\<rparr>
             in notify (onError (callbacks s1)) [Str ''Loi khi thiet lap ket noi''] s1))"

subsection \<open>\<open>handleWebSocketMessage\<close> and the message handler\<close>

text \<open>
  \<open>const { action } = data\<close> throws a TypeError when \<open>data\<close> is null or undefined; the
  \<open>switch\<close> compares \<open>action\<close> with \<open>===\<close>.
\<close>

definition handleWebSocketMessage :: "bool \<Rightarrow> js \<Rightarrow> state \<Rightarrow> completion \<times> state" where
  "handleWebSocketMessage accepted data s =
     (if data = Null \<or> data = Undefined then (Throw TypeError, s)
      else
        (let action = get_prop data ''action'' in
         if action = Str ''session_created'' then
           (let s1 = s\<lparr>sessionId := get_prop data ''session_id''\<rparr>
            in (Normal, notify (onSessionCreated (callbacks s1)) [get_prop data ''session_id''] s1))
         else if action = Str ''answer'' then
           (Normal, handleRemoteAnswer accepted (get_prop data ''answer'') s)
         else if action = Str ''transcript'' then
           (Normal, notify (onTranscript (callbacks s)) [get_prop data ''text''] s)
         else if action = Str ''translation'' then
           (Normal, notify (onTranslation (callbacks s)) [get_prop data ''text''] s)
         else if action = Str ''session_state'' then
           (Normal, if get_prop data ''state'' = Str ''closed''
                    then notify (onCallEnded (callbacks s)) [] s else s)
         else if action = Str ''error'' then
           (Normal, notify (onError (callbacks s)) [get_prop data ''message''] s)
         else
           (Normal, s\<lparr>console := console s @ [ConsoleLog ''Unhandled websocket message:'']\<rparr>)))"

text \<open>
  The socket's message handler: \<open>JSON.parse(event.data)\<close>, then the dispatch. The parser
  is the platform's and is a parameter: \<open>parse frame = None\<close> when \<open>JSON.parse\<close> throws
  its SyntaxError. Nothing in the handler catches it.
\<close>

definition ws_onmessage ::
  "(string \<Rightarrow> js option) \<Rightarrow> bool \<Rightarrow> string \<Rightarrow> state \<Rightarrow> completion \<times> state" where
  "ws_onmessage parse accepted frame s =
     (case parse frame of
        None \<Rightarrow> (Throw SyntaxError, s)
      | Some data \<Rightarrow> handleWebSocketMessage accepted data s)"

subsection \<open>\<open>createSession\<close> and its timeout\<close>

text \<open>
  The promise is created first and its executor runs at once. When the send throws, the
  \<open>catch\<close> block logs and rejects the promise with what was thrown; the lines after the
  send, which install the temporary handler and arm the timer, are then not reached.
\<close>

definition createSession :: "state \<Rightarrow> nat \<times> state" where
  "createSession s =
     (let p = length (promises s);
          s0 = s\<lparr>promises := promises s @ [Pending]\<rparr>
      in if \<not> isConnected s0 then (p, settle p (Rejected NotConnectedError) s0)
         else
           (case websocket_send create_session s0 of
              (Throw error, s1) \<Rightarrow>
                (p, settle p (Rejected error)
                      (s1\<lparr>console := console s1 @ [ConsoleError ''Error creating session:'']\<rparr>))
            | (Normal, s1) \<Rightarrow>
                (let originalCallback = onSessionCreated (callbacks s1);
                     s2 = s1\<lparr>callbacks := (callbacks s1)
                            \<lparr>onSessionCreated := Some (Temp p originalCallback)\<rparr>\<rparr>;
                     s3 = s2\<lparr>timers := timers s2 @ [(10000, p, originalCallback)]\<rparr>
                 in (p, s3))))"

text \<open>The function given to \<open>setTimeout\<close>, run when the timer of \<open>createSession\<close> fires.\<close>

definition createSession_timeout :: "nat \<times> nat \<times> handler option \<Rightarrow> state \<Rightarrow> state" where
  "createSession_timeout t s =
     (case t of (delay, p, originalCallback) \<Rightarrow>
        (let s1 = settle p (Rejected SessionTimeoutError) s
         in s1\<lparr>callbacks := (callbacks s1)\<lparr>onSessionCreated := originalCallback\<rparr>\<rparr>))"

subsection \<open>\<open>setLanguages\<close>\<close>

text \<open>Nothing catches what the send throws: it reaches the caller.\<close>

definition setLanguages :: "js \<Rightarrow> js \<Rightarrow> state \<Rightarrow> completion \<times> state" where
  "setLanguages sourceLang targetLang s =
     (if \<not> truthy (sessionId s) \<or> \<not> isConnected s
      then (Normal, s\<lparr>console := console s @
              [ConsoleError ''Cannot set languages: No active session or connection'']\<rparr>)
      else websocket_send (set_languages (sessionId s) sourceLang targetLang) s)"

subsection \<open>\<open>endCall\<close> and \<open>disconnect\<close>\<close>

text \<open>The last lines of \<open>endCall\<close>: reset the two fields and call the handler.\<close>

definition endCall_reset :: "state \<Rightarrow> state" where
  "endCall_reset s =
     (let s1 = s\<lparr>remoteStream := None, sessionId := Null\<rparr>
      in notify (onCallEnded (callbacks s1)) [] s1)"

text \<open>
  The send is reached when the session id is truthy and the flag is set. What it throws
  leaves \<open>endCall\<close> before the reset.
\<close>

definition endCall :: "state \<Rightarrow> completion \<times> state" where
  "endCall s =
     (let s1 = (case peerConnection s of
                  None \<Rightarrow> s
                | Some pc \<Rightarrow> s\<lparr>closed := closed s @ [pc], peerConnection := None\<rparr>);
          s2 = (case localStream s1 of
                  None \<Rightarrow> s1
                | Some tracks \<Rightarrow> s1\<lparr>stopped := stopped s1 @ tracks, localStream := None\<rparr>)
      in if truthy (sessionId s2) \<and> isConnected s2
         then (case websocket_send (close_session (sessionId s2)) s2 of
                 (Throw error, s3) \<Rightarrow> (Throw error, s3)
               | (Normal, s3) \<Rightarrow> (Normal, endCall_reset s3))
         else (Normal, endCall_reset s2))"

text \<open>
  \<open>this.websocket.close()\<close> starts the closing of a socket that is CONNECTING or OPEN and
  does nothing to one that is CLOSING or CLOSED.
\<close>

definition websocket_close :: "nat \<Rightarrow> state \<Rightarrow> state" where
  "websocket_close w s =
     s\<lparr>socket_closes := socket_closes s @ [w],
       readyState := (readyState s)
         (w := (case readyState s w of
                  CONNECTING \<Rightarrow> CLOSING | OPEN \<Rightarrow> CLOSING
                | CLOSING \<Rightarrow> CLOSING | CLOSED \<Rightarrow> CLOSED))\<rparr>"

definition disconnect :: "state \<Rightarrow> completion \<times> state" where
  "disconnect s =
     (case endCall s of
        (Throw error, s1) \<Rightarrow> (Throw error, s1)
      | (Normal, s1) \<Rightarrow>
          (let s2 = (case websocket s1 of
                       None \<Rightarrow> s1
                     | Some w \<Rightarrow> if isConnected s1 then websocket_close w s1 else s1)
           in (Normal, s2\<lparr>websocket := None, isConnected := False\<rparr>)))"

subsection \<open>Example states\<close>

text \<open>
  Concrete states and messages, used to evaluate the operations. \<open>open_state\<close> is the
  state after \<open>connect\<close> and the socket's open event; \<open>pending_state\<close> follows a
  \<open>createSession\<close> call; in \<open>timed_out_state\<close> the timer of that call has fired; in
  \<open>active_state\<close> the server's \<open>session_created\<close> message has arrived instead.
\<close>

definition open_state :: state where
  "open_state = ws_onopen 0 (snd (connect ''ws://localhost:5000/ws'' True constructor))"

definition session_created_s1 :: js where
  "session_created_s1 = Obj [(''action'', Str ''session_created''), (''session_id'', Str ''s1'')]"

definition pending_state :: state where
  "pending_state = snd (createSession open_state)"

definition timed_out_state :: state where
  "timed_out_state = createSession_timeout (last (timers pending_state)) pending_state"

definition active_state :: state where
  "active_state = snd (handleWebSocketMessage True session_created_s1 pending_state)"

text \<open>
  A call in progress: the open socket of \<open>open_state\<close>, session \<open>s1\<close>, a peer
  connection without remote description, a local stream of two tracks, a remote stream,
  and user handlers for errors (label 0) and for the end of the call (label 1).
\<close>

definition call_state :: state where
  "call_state = open_state\<lparr>
     peerConnection := Some \<lparr>remoteDescription = None\<rparr>,
     localStream := Some [0, 1], remoteStream := Some 0, sessionId := Str ''s1'',
     callbacks := no_callbacks\<lparr>onError := Some (User 0), onCallEnded := Some (User 1)\<rparr> \<rparr>"

text \<open>
  \<open>connect\<close> called again while connected: the flag is still set from the first socket,
  and the socket of the service is now the second one, which has not opened yet.
\<close>

definition reconnecting_state :: state where
  "reconnecting_state = snd (connect ''ws://localhost:5000/ws'' True open_state)"

definition first_answer :: js where
  "first_answer = Obj [(''sdp'', Str ''v=0 first''), (''type'', Str ''answer'')]"

definition second_answer :: js where
  "second_answer = Obj [(''sdp'', Str ''v=0 second''), (''type'', Str ''offer'')]"

text \<open>
  A stand-in for \<open>JSON.parse\<close> on two frames: it reads the text \<open>null\<close> as the value
  null and rejects every other text, among them the unfinished object \<open>{\<close>.
\<close>

definition parse_null_only :: "string \<Rightarrow> js option" where
  "parse_null_only frame = (if frame = ''null'' then Some Null else None)"

text \<open>
  \<open>connect\<close>, then \<open>disconnect\<close> before the socket has opened (no \<open>close()\<close> is called
  on it, since the flag is not set yet), then the socket's open event, then a
  \<open>session_created\<close> message on that socket.
\<close>

definition stale_open_state :: state where
  "stale_open_state =
     snd (handleWebSocketMessage True session_created_s1
       (ws_onopen 0
         (snd (disconnect
           (snd (connect ''ws://localhost:5000/ws'' True constructor))))))"

section \<open>Properties\<close>

subsection \<open>What calling a handler can change\<close>

text \<open>
  Settling a promise changes the promise list only, and never a promise that is already
  settled. Calling a handler changes the record of user calls, the promises and the
  session-created slot, and nothing else.
\<close>

lemma settle_frame [simp]:
  "websocket (settle p v s) = websocket s"
  "peerConnection (settle p v s) = peerConnection s"
  "localStream (settle p v s) = localStream s"
  "remoteStream (settle p v s) = remoteStream s"
  "sessionId (settle p v s) = sessionId s"
  "isConnected (settle p v s) = isConnected s"
  "callbacks (settle p v s) = callbacks s"
  "timers (settle p v s) = timers s"
  "sockets (settle p v s) = sockets s"
  "readyState (settle p v s) = readyState s"
  "sent (settle p v s) = sent s"
  "stopped (settle p v s) = stopped s"
  "closed (settle p v s) = closed s"
  "socket_closes (settle p v s) = socket_closes s"
  "notified (settle p v s) = notified s"
  "console (settle p v s) = console s"
  "length (promises (settle p v s)) = length (promises s)"
  by (simp_all add: settle_def)

lemma settle_settled:
  "q < length (promises s) \<Longrightarrow> promises s ! q \<noteq> Pending \<Longrightarrow>
   promises (settle p v s) ! q = promises s ! q"
  by (cases "p = q") (simp_all add: settle_def)

lemma settle_pending:
  "p < length (promises s) \<Longrightarrow> promises s ! p = Pending \<Longrightarrow> promises (settle p v s) ! p = v"
  by (simp add: settle_def)

lemma invoke_frame:
  "websocket (invoke h args s) = websocket s
   \<and> peerConnection (invoke h args s) = peerConnection s
   \<and> localStream (invoke h args s) = localStream s
   \<and> remoteStream (invoke h args s) = remoteStream s
   \<and> sessionId (invoke h args s) = sessionId s
   \<and> isConnected (invoke h args s) = isConnected s
   \<and> timers (invoke h args s) = timers s
   \<and> sockets (invoke h args s) = sockets s
   \<and> readyState (invoke h args s) = readyState s
   \<and> sent (invoke h args s) = sent s
   \<and> stopped (invoke h args s) = stopped s
   \<and> closed (invoke h args s) = closed s
   \<and> socket_closes (invoke h args s) = socket_closes s
   \<and> console (invoke h args s) = console s
   \<and> length (promises (invoke h args s)) = length (promises s)"
proof (induction h args s rule: invoke.induct)
  case (1 l args s)
  show ?case by simp
next
  case (2 p orig args s)
  show ?case
  proof (cases orig)
    case None
    then show ?thesis by (simp add: Let_def)
  next
    case (Some h)
    with 2 show ?thesis by (simp add: Let_def)
  qed
next
  case (3 orig args s)
  then show ?case by (cases orig) simp_all
qed

lemma invoke_settled:
  "q < length (promises s) \<Longrightarrow> promises s ! q \<noteq> Pending \<Longrightarrow>
   promises (invoke h args s) ! q = promises s ! q"
proof (induction h args s rule: invoke.induct)
  case (1 l args s)
  show ?case by simp
next
  case (2 p orig args s)
  show ?case
  proof (cases orig)
    case None
    with 2 show ?thesis by (simp add: Let_def settle_settled)
  next
    case (Some h)
    with 2 show ?thesis by (simp add: Let_def settle_settled)
  qed
next
  case (3 orig args s)
  then show ?case by (cases orig) simp_all
qed

lemma notify_frame:
  "websocket (notify slot args s) = websocket s
   \<and> peerConnection (notify slot args s) = peerConnection s
   \<and> localStream (notify slot args s) = localStream s
   \<and> remoteStream (notify slot args s) = remoteStream s
   \<and> sessionId (notify slot args s) = sessionId s
   \<and> isConnected (notify slot args s) = isConnected s
   \<and> timers (notify slot args s) = timers s
   \<and> sockets (notify slot args s) = sockets s
   \<and> readyState (notify slot args s) = readyState s
   \<and> sent (notify slot args s) = sent s
   \<and> stopped (notify slot args s) = stopped s
   \<and> closed (notify slot args s) = closed s
   \<and> socket_closes (notify slot args s) = socket_closes s
   \<and> console (notify slot args s) = console s
   \<and> length (promises (notify slot args s)) = length (promises s)"
  using invoke_frame by (cases slot) (simp_all add: notify_def)

lemma notify_settled:
  "q < length (promises s) \<Longrightarrow> promises s ! q \<noteq> Pending \<Longrightarrow>
   promises (notify slot args s) ! q = promises s ! q"
  by (cases slot) (simp_all add: notify_def invoke_settled)

lemma notify_User:
  "notify (Some (User l)) args s = s\<lparr>notified := notified s @ [(l, args)]\<rparr>"
  by (simp add: notify_def)

lemma notify_None: "notify None args s = s"
  by (simp add: notify_def)


subsection \<open>Registration of handlers\<close>

lemma on_known:
  "on ''onConnectionStateChange'' cb s = s\<lparr>callbacks := (callbacks s)\<lparr>onConnectionStateChange := cb\<rparr>\<rparr>"
  "on ''onTranscript'' cb s = s\<lparr>callbacks := (callbacks s)\<lparr>onTranscript := cb\<rparr>\<rparr>"
  "on ''onTranslation'' cb s = s\<lparr>callbacks := (callbacks s)\<lparr>onTranslation := cb\<rparr>\<rparr>"
  "on ''onError'' cb s = s\<lparr>callbacks := (callbacks s)\<lparr>onError := cb\<rparr>\<rparr>"
  "on ''onSessionCreated'' cb s = s\<lparr>callbacks := (callbacks s)\<lparr>onSessionCreated := cb\<rparr>\<rparr>"
  "on ''onCallEstablished'' cb s = s\<lparr>callbacks := (callbacks s)\<lparr>onCallEstablished := cb\<rparr>\<rparr>"
  "on ''onCallEnded'' cb s = s\<lparr>callbacks := (callbacks s)\<lparr>onCallEnded := cb\<rparr>\<rparr>"
  by (simp_all add: on_def assign_slot_def event_names_def)

text \<open>
  Claim C10. Registration is frame-preserving. For each of the seven event names,
  \<open>on\<close> replaces that one slot of the callback table and leaves the other six slots, and
  every other part of the state, as they were. For any other name the callback table is
  unchanged: the state differs only by the logged line.
\<close>

theorem on_frame:
  "on ''onConnectionStateChange'' cb s = s\<lparr>callbacks := (callbacks s)\<lparr>onConnectionStateChange := cb\<rparr>\<rparr>
   \<and> on ''onTranscript'' cb s = s\<lparr>callbacks := (callbacks s)\<lparr>onTranscript := cb\<rparr>\<rparr>
   \<and> on ''onTranslation'' cb s = s\<lparr>callbacks := (callbacks s)\<lparr>onTranslation := cb\<rparr>\<rparr>
   \<and> on ''onError'' cb s = s\<lparr>callbacks := (callbacks s)\<lparr>onError := cb\<rparr>\<rparr>
   \<and> on ''onSessionCreated'' cb s = s\<lparr>callbacks := (callbacks s)\<lparr>onSessionCreated := cb\<rparr>\<rparr>
   \<and> on ''onCallEstablished'' cb s = s\<lparr>callbacks := (callbacks s)\<lparr>onCallEstablished := cb\<rparr>\<rparr>
   \<and> on ''onCallEnded'' cb s = s\<lparr>callbacks := (callbacks s)\<lparr>onCallEnded := cb\<rparr>\<rparr>
   \<and> (eventName \<notin> set event_names \<longrightarrow>
        on eventName cb s
          = s\<lparr>console := console s @ [ConsoleError (''Unknown event: '' @ eventName)]\<rparr>
        \<and> callbacks (on eventName cb s) = callbacks s)"
  by (simp add: on_known) (simp add: on_def)

theorem on_frame_witness:
  "''onFoo'' \<notin> set event_names
   \<and> callbacks (on ''onFoo'' (Some (User 1)) constructor) = no_callbacks
   \<and> on ''onError'' (Some (User 1)) constructor
       = constructor\<lparr>callbacks := no_callbacks\<lparr>onError := Some (User 1)\<rparr>\<rparr>"
  using on_frame [of "Some (User 1)" constructor "''onFoo''"]
  by (simp add: event_names_def constructor_def)

subsection \<open>Session creation\<close>

lemma open_state_eq:
  "open_state = constructor\<lparr>websocket := Some 0, isConnected := True,
     promises := [Fulfilled Undefined], sockets := [0],
     readyState := (\<lambda>w. CONNECTING)(0 := OPEN),
     console := [ConsoleLog ''WebSocket connected'']\<rparr>"
  by (simp add: open_state_def connect_def ws_onopen_def constructor_def no_callbacks_def
      notify_def settle_def Let_def)

lemma websocket_send_open:
  "websocket s = Some w \<Longrightarrow> readyState s w = OPEN \<Longrightarrow>
   websocket_send message s = (Normal, s\<lparr>sent := sent s @ [(w, message)]\<rparr>)"
  by (simp add: websocket_send_def)

lemma websocket_send_returned:
  "websocket s = Some w \<Longrightarrow> readyState s w \<noteq> CONNECTING \<Longrightarrow>
   websocket_send message s
     = (Normal, if readyState s w = OPEN then s\<lparr>sent := sent s @ [(w, message)]\<rparr> else s)"
  by (cases "readyState s w") (simp_all add: websocket_send_def)

text \<open>
  When the send returns (flag set, socket present and no longer CONNECTING), the new
  promise is pending, the temporary handler is installed and the timer is armed; the
  message is on the wire when the socket is OPEN.
\<close>

lemma createSession_send_returned:
  "isConnected s \<Longrightarrow> websocket s = Some w \<Longrightarrow> readyState s w \<noteq> CONNECTING \<Longrightarrow>
   createSession s
     = (length (promises s),
        s\<lparr>promises := promises s @ [Pending],
          sent := (if readyState s w = OPEN then sent s @ [(w, create_session)] else sent s),
          callbacks := (callbacks s)\<lparr>onSessionCreated :=
             Some (Temp (length (promises s)) (onSessionCreated (callbacks s)))\<rparr>,
          timers := timers s @ [(10000, length (promises s), onSessionCreated (callbacks s))]\<rparr>)"
  by (simp add: createSession_def Let_def websocket_send_returned)

lemma createSession_connected:
  "isConnected s \<Longrightarrow> websocket s = Some w \<Longrightarrow> readyState s w = OPEN \<Longrightarrow>
   createSession s
     = (length (promises s),
        s\<lparr>promises := promises s @ [Pending],
          sent := sent s @ [(w, create_session)],
          callbacks := (callbacks s)\<lparr>onSessionCreated :=
             Some (Temp (length (promises s)) (onSessionCreated (callbacks s)))\<rparr>,
          timers := timers s @ [(10000, length (promises s), onSessionCreated (callbacks s))]\<rparr>)"
  by (simp add: createSession_send_returned)

lemma handle_session_created:
  "get_prop data ''action'' = Str ''session_created'' \<Longrightarrow>
   handleWebSocketMessage accepted data s
     = (Normal, notify (onSessionCreated (callbacks s)) [get_prop data ''session_id'']
                  (s\<lparr>sessionId := get_prop data ''session_id''\<rparr>))"
  by (auto simp add: handleWebSocketMessage_def Let_def)

text \<open>
  With the connection flag not set, \<open>createSession\<close> returns a promise that is already
  rejected with the not-connected error, and nothing is sent: the state differs only by
  the new promise.
\<close>

lemma createSession_flag_unset:
  "\<not> isConnected s \<Longrightarrow>
   createSession s
     = (length (promises s), s\<lparr>promises := promises s @ [Rejected NotConnectedError]\<rparr>)
   \<and> sent (snd (createSession s)) = sent s"
  by (simp add: createSession_def settle_def Let_def)

lemma reconnecting_state_eq:
  "reconnecting_state = constructor\<lparr>websocket := Some 1, isConnected := True,
     promises := [Fulfilled Undefined, Pending], sockets := [0, 1],
     readyState := (\<lambda>w. CONNECTING)(0 := OPEN, 1 := CONNECTING),
     console := [ConsoleLog ''WebSocket connected'']\<rparr>"
  by (simp add: reconnecting_state_def open_state_eq connect_def constructor_def Let_def)

lemma stale_open_state_eq:
  "stale_open_state = constructor\<lparr>sessionId := Str ''s1'', isConnected := True,
     promises := [Fulfilled Undefined], sockets := [0],
     readyState := (\<lambda>w. CONNECTING)(0 := OPEN),
     console := [ConsoleLog ''WebSocket connected'']\<rparr>"
  by (simp add: stale_open_state_def connect_def disconnect_def endCall_def
      websocket_send_def endCall_reset_def ws_onopen_def handleWebSocketMessage_def
      session_created_s1_def constructor_def no_callbacks_def notify_def settle_def Let_def)

text \<open>
  Claim C6. The claim asks that \<open>createSession\<close> fail with the not-connected error, and
  send nothing, in every state whose channel is not open. The code tests the connection
  flag in place of the socket, and the flag can be set while the socket of the service
  is not open. In \<open>reconnecting_state\<close> the flag is set and the socket is still
  CONNECTING: the call passes the test, the send throws, and the promise is rejected
  with the InvalidStateError of the send, not with the not-connected error. In
  \<open>stale_open_state\<close> the flag is set and the socket is null: the promise is rejected with
  a TypeError. In both states nothing is sent.
\<close>

theorem createSession_flag_set_not_open:
  "isConnected reconnecting_state \<and> websocket reconnecting_state = Some 1
   \<and> readyState reconnecting_state 1 = CONNECTING
   \<and> promises (snd (createSession reconnecting_state)) ! fst (createSession reconnecting_state)
       = Rejected InvalidStateError
   \<and> sent (snd (createSession reconnecting_state)) = []
   \<and> isConnected stale_open_state \<and> websocket stale_open_state = None
   \<and> promises (snd (createSession stale_open_state)) ! fst (createSession stale_open_state)
       = Rejected TypeError
   \<and> sent (snd (createSession stale_open_state)) = []
   \<and> NotConnectedError \<noteq> InvalidStateError \<and> NotConnectedError \<noteq> TypeError"
  by (simp add: reconnecting_state_eq stale_open_state_eq constructor_def createSession_def
      websocket_send_def settle_def Let_def NotConnectedError_def)

text \<open>
  Claim C3, as the code has it. \<open>createSession\<close> looks at the connection flag only: it
  has no check for a pending request or an active session. In every state with the flag
  set and the socket OPEN, whatever promises are pending and whatever the session id
  is, the call sends one more \<open>create_session\<close> message, installs one more temporary
  handler around the current content of the session-created slot, arms one more timer of
  10000 ms, and returns a new promise that is pending, not rejected.
\<close>

theorem createSession_no_guard:
  "isConnected s \<Longrightarrow> websocket s = Some w \<Longrightarrow> readyState s w = OPEN \<Longrightarrow>
   createSession s
     = (length (promises s),
        s\<lparr>promises := promises s @ [Pending],
          sent := sent s @ [(w, create_session)],
          callbacks := (callbacks s)\<lparr>onSessionCreated :=
             Some (Temp (length (promises s)) (onSessionCreated (callbacks s)))\<rparr>,
          timers := timers s @ [(10000, length (promises s), onSessionCreated (callbacks s))]\<rparr>)
   \<and> promises (snd (createSession s)) ! fst (createSession s) = Pending"
  by (simp add: createSession_connected)

text \<open>The theorem at a state whose session is active.\<close>

theorem createSession_no_guard_witness:
  "isConnected active_state \<and> websocket active_state = Some 0
   \<and> readyState active_state 0 = OPEN
   \<and> sessionId active_state = Str ''s1''
   \<and> fst (createSession active_state) = 2
   \<and> promises (snd (createSession active_state)) ! 2 = Pending
   \<and> sent (snd (createSession active_state)) = [(0, create_session), (0, create_session)]"
proof -
  have eq: "active_state = constructor\<lparr>websocket := Some 0, sessionId := Str ''s1'',
     isConnected := True,
     callbacks := no_callbacks\<lparr>onSessionCreated := Some (Pass (Some (Temp 1 None)))\<rparr>,
     promises := [Fulfilled Undefined, Fulfilled (Str ''s1'')],
     timers := [(10000, 1, None)], sockets := [0],
     readyState := (\<lambda>w. CONNECTING)(0 := OPEN), sent := [(0, create_session)],
     console := [ConsoleLog ''WebSocket connected'']\<rparr>"
    by (simp add: active_state_def pending_state_def open_state_eq constructor_def
      no_callbacks_def createSession_def websocket_send_def settle_def Let_def
      handleWebSocketMessage_def session_created_s1_def notify_def)
  have a: "isConnected active_state" and b: "websocket active_state = Some 0"
    and c: "readyState active_state 0 = OPEN"
    by (simp_all add: eq constructor_def)
  from createSession_no_guard [OF a b c] a b c show ?thesis
    by (simp add: eq constructor_def)
qed

text \<open>
  Claim C3 as stated fails: with the first request still pending (promise 1), a second
  \<open>createSession\<close> is not rejected. It returns promise 2, pending, and a second
  \<open>create_session\<close> message has been sent.
\<close>

theorem second_createSession_counterexample:
  "promises pending_state ! 1 = Pending
   \<and> fst (createSession pending_state) = 2
   \<and> promises (snd (createSession pending_state)) ! 2 = Pending
   \<and> sent (snd (createSession pending_state)) = [(0, create_session), (0, create_session)]"
  by (simp add: pending_state_def open_state_eq constructor_def
      no_callbacks_def createSession_def websocket_send_def Let_def)

text \<open>
  Claim C2, as the code has it. Let \<open>createSession\<close>, called with the flag set and a
  socket that is no longer CONNECTING, so that the send returns, return promise \<open>p\<close>.
  The timer it arms carries \<open>p\<close> and the content the session-created slot had before
  the call. When that timer fires in any later state
  \<open>s'\<close> in which \<open>p\<close> is still pending, \<open>p\<close> becomes rejected with the timeout error and the
  slot gets its earlier content back. A \<open>session_created\<close> message that arrives after
  that does not resolve the waiter: \<open>p\<close> stays rejected with the timeout error. But the
  message is not ignored: the session id is set to the message's \<open>session_id\<close>, and the
  restored handler, if there is one, is called with it.
\<close>

theorem createSession_timeout_late_response:
  "isConnected s \<Longrightarrow> websocket s = Some w \<Longrightarrow>
   readyState s w \<noteq> CONNECTING \<Longrightarrow>
   createSession s = (p, s1) \<Longrightarrow>
   p < length (promises s') \<Longrightarrow> promises s' ! p = Pending \<Longrightarrow>
   s2 = createSession_timeout (last (timers s1)) s' \<Longrightarrow>
   get_prop data ''action'' = Str ''session_created'' \<Longrightarrow>
   handleWebSocketMessage accepted data s2 = (c, s3) \<Longrightarrow>
   promises s1 ! p = Pending
   \<and> last (timers s1) = (10000, p, onSessionCreated (callbacks s))
   \<and> promises s2 ! p = Rejected SessionTimeoutError
   \<and> onSessionCreated (callbacks s2) = onSessionCreated (callbacks s)
   \<and> c = Normal
   \<and> promises s3 ! p = Rejected SessionTimeoutError
   \<and> sessionId s3 = get_prop data ''session_id''
   \<and> s3 = notify (onSessionCreated (callbacks s)) [get_prop data ''session_id'']
             (s2\<lparr>sessionId := get_prop data ''session_id''\<rparr>)"
proof -
  assume conn: "isConnected s" and ws: "websocket s = Some w"
    and rs: "readyState s w \<noteq> CONNECTING"
    and cs: "createSession s = (p, s1)"
    and len': "p < length (promises s')" and pend': "promises s' ! p = Pending"
    and s2: "s2 = createSession_timeout (last (timers s1)) s'"
    and act: "get_prop data ''action'' = Str ''session_created''"
    and hm: "handleWebSocketMessage accepted data s2 = (c, s3)"
  have "(p, s1) = (length (promises s),
        s\<lparr>promises := promises s @ [Pending],
          sent := (if readyState s w = OPEN then sent s @ [(w, create_session)] else sent s),
          callbacks := (callbacks s)\<lparr>onSessionCreated :=
             Some (Temp (length (promises s)) (onSessionCreated (callbacks s)))\<rparr>,
          timers := timers s @ [(10000, length (promises s), onSessionCreated (callbacks s))]\<rparr>)"
    using createSession_send_returned [OF conn ws rs] unfolding cs .
  then have p: "p = length (promises s)"
    and s1: "s1 = s\<lparr>promises := promises s @ [Pending],
          sent := (if readyState s w = OPEN then sent s @ [(w, create_session)] else sent s),
          callbacks := (callbacks s)\<lparr>onSessionCreated :=
             Some (Temp (length (promises s)) (onSessionCreated (callbacks s)))\<rparr>,
          timers := timers s @ [(10000, length (promises s), onSessionCreated (callbacks s))]\<rparr>"
    by simp_all
  have pend: "promises s1 ! p = Pending"
    by (simp add: p s1)
  have tm: "last (timers s1) = (10000, p, onSessionCreated (callbacks s))"
    by (simp add: p s1)
  have rej: "promises s2 ! p = Rejected SessionTimeoutError"
    using len' pend' by (simp add: s2 tm createSession_timeout_def settle_def Let_def)
  have len: "p < length (promises s2)"
    using len' by (simp add: s2 tm createSession_timeout_def Let_def)
  have slot: "onSessionCreated (callbacks s2) = onSessionCreated (callbacks s)"
    by (simp add: s2 tm createSession_timeout_def Let_def)
  have "(c, s3) = (Normal, notify (onSessionCreated (callbacks s2)) [get_prop data ''session_id'']
                  (s2\<lparr>sessionId := get_prop data ''session_id''\<rparr>))"
    using handle_session_created [OF act, of accepted s2] unfolding hm .
  then have c: "c = Normal"
    and s3: "s3 = notify (onSessionCreated (callbacks s2)) [get_prop data ''session_id'']
                  (s2\<lparr>sessionId := get_prop data ''session_id''\<rparr>)"
    by simp_all
  have rej3: "promises s3 ! p = Rejected SessionTimeoutError"
    using len rej by (simp add: s3 notify_settled)
  have sid: "sessionId s3 = get_prop data ''session_id''"
    by (simp add: s3 notify_frame)
  have s3': "s3 = notify (onSessionCreated (callbacks s)) [get_prop data ''session_id'']
             (s2\<lparr>sessionId := get_prop data ''session_id''\<rparr>)"
    using s3 slot by simp
  from pend tm rej slot c rej3 sid s3' show ?thesis by blast
qed

theorem createSession_timeout_late_response_witness:
  "isConnected open_state \<and> websocket open_state = Some 0
   \<and> readyState open_state 0 \<noteq> CONNECTING
   \<and> createSession open_state = (1, pending_state)
   \<and> promises pending_state ! 1 = Pending
   \<and> get_prop session_created_s1 ''action'' = Str ''session_created''
   \<and> promises timed_out_state ! 1 = Rejected SessionTimeoutError
   \<and> sessionId (snd (handleWebSocketMessage True session_created_s1 timed_out_state))
       = get_prop session_created_s1 ''session_id''"
proof -
  have a: "isConnected open_state" and b: "websocket open_state = Some 0"
    and o: "readyState open_state 0 = OPEN"
    by (simp_all add: open_state_eq constructor_def)
  from o have n: "readyState open_state 0 \<noteq> CONNECTING"
    by simp
  have c: "get_prop session_created_s1 ''action'' = Str ''session_created''"
    by (simp add: session_created_s1_def)
  have d: "createSession open_state = (1, pending_state)"
    using createSession_connected [OF a b o]
    by (simp add: pending_state_def open_state_eq constructor_def)
  have e: "1 < length (promises pending_state)"
    and f: "promises pending_state ! 1 = Pending"
    using createSession_connected [OF a b o]
    by (simp_all add: pending_state_def open_state_eq constructor_def)
  have g: "timed_out_state = createSession_timeout (last (timers pending_state)) pending_state"
    by (simp add: timed_out_state_def)
  have h: "handleWebSocketMessage True session_created_s1 timed_out_state
     = (fst (handleWebSocketMessage True session_created_s1 timed_out_state),
        snd (handleWebSocketMessage True session_created_s1 timed_out_state))"
    by simp
  note r = createSession_timeout_late_response [OF a b n d e f g c h]
  from r have i: "promises timed_out_state ! 1 = Rejected SessionTimeoutError"
    by blast
  from r have j: "sessionId (snd (handleWebSocketMessage True session_created_s1 timed_out_state))
       = get_prop session_created_s1 ''session_id''"
    by blast
  from a b n d f c i j show ?thesis by blast
qed

text \<open>
  Claim C2 as stated fails in its second half: after the timeout the session id is
  null, and the late \<open>session_created\<close> message sets it to \<open>s1\<close>.
\<close>

theorem late_session_created_counterexample:
  "sessionId timed_out_state = Null
   \<and> promises timed_out_state ! 1 = Rejected SessionTimeoutError
   \<and> sessionId (snd (handleWebSocketMessage True session_created_s1 timed_out_state)) = Str ''s1''"
  by (simp add: timed_out_state_def pending_state_def open_state_eq constructor_def
      no_callbacks_def createSession_def websocket_send_def createSession_timeout_def
      settle_def Let_def handleWebSocketMessage_def session_created_s1_def notify_def)


subsection \<open>Incoming frames\<close>

text \<open>
  Claim C7, as the code has it. The message handler has no error handling. For a frame
  that the parser rejects, the handler ends with the parser's SyntaxError: the dispatch
  is not reached, the state is unchanged and the service logs nothing. The handler is not
  total on the frames that do parse either: for a frame that parses to null, the
  dispatcher's destructuring throws a TypeError, again with the state unchanged.
\<close>

theorem ws_onmessage_unparseable:
  "(parse frame = None \<longrightarrow>
      ws_onmessage parse accepted frame s = (Throw SyntaxError, s))
   \<and> (parse frame = Some Null \<longrightarrow>
      ws_onmessage parse accepted frame s = (Throw TypeError, s))"
  by (simp add: ws_onmessage_def handleWebSocketMessage_def)

theorem ws_onmessage_unparseable_witness:
  "parse_null_only ''{'' = None
   \<and> ws_onmessage parse_null_only True ''{'' constructor = (Throw SyntaxError, constructor)
   \<and> parse_null_only ''null'' = Some Null
   \<and> ws_onmessage parse_null_only True ''null'' constructor = (Throw TypeError, constructor)"
  using ws_onmessage_unparseable [of parse_null_only "''{''" True constructor]
    ws_onmessage_unparseable [of parse_null_only "''null''" True constructor]
  by (simp add: parse_null_only_def)

text \<open>
  Claim C7 as stated fails: on the frame \<open>{\<close> the handler does not return, it throws,
  and no diagnostic has been logged.
\<close>

theorem malformed_frame_counterexample:
  "fst (ws_onmessage parse_null_only True ''{'' constructor) = Throw SyntaxError
   \<and> console (snd (ws_onmessage parse_null_only True ''{'' constructor)) = []"
  by (simp add: ws_onmessage_def parse_null_only_def constructor_def)

subsection \<open>The remote answer\<close>

text \<open>
  Claim C4, as the code has it. \<open>handleRemoteAnswer\<close> has no once-only check: whenever a
  peer connection exists it hands the answer to it, whether or not a remote description
  is already set. When the peer connection accepts, the description it holds is replaced
  by the new one, also on the second invocation; when it refuses, the description set
  before is kept. Which of the two happens is decided by the peer connection alone
  (real ones refuse a second description of type \<open>answer\<close> once the exchange is complete,
  and accept one of type \<open>offer\<close>).
\<close>

theorem handleRemoteAnswer_replaces:
  "peerConnection s = Some pc \<Longrightarrow>
   handleRemoteAnswer True answer s
     = s\<lparr>peerConnection := Some (pc\<lparr>remoteDescription := Some answer\<rparr>),
         console := console s @ [ConsoleLog ''Remote description set successfully'']\<rparr>
   \<and> peerConnection (handleRemoteAnswer True answer' (handleRemoteAnswer True answer s))
       = Some (pc\<lparr>remoteDescription := Some answer'\<rparr>)
   \<and> peerConnection (handleRemoteAnswer False answer' (handleRemoteAnswer True answer s))
       = Some (pc\<lparr>remoteDescription := Some answer\<rparr>)"
  by (simp add: handleRemoteAnswer_def Let_def notify_frame)

theorem handleRemoteAnswer_replaces_witness:
  "peerConnection call_state = Some \<lparr>remoteDescription = None\<rparr>
   \<and> peerConnection (handleRemoteAnswer True first_answer call_state)
       = Some \<lparr>remoteDescription = Some first_answer\<rparr>
   \<and> peerConnection (handleRemoteAnswer False second_answer
         (handleRemoteAnswer True first_answer call_state))
       = Some \<lparr>remoteDescription = Some first_answer\<rparr>"
proof -
  have a: "peerConnection call_state = Some \<lparr>remoteDescription = None\<rparr>"
    by (simp add: call_state_def open_state_eq constructor_def)
  note r = handleRemoteAnswer_replaces [OF a, of first_answer second_answer]
  have b: "peerConnection (handleRemoteAnswer True first_answer call_state)
       = Some \<lparr>remoteDescription = Some first_answer\<rparr>"
    using r [THEN conjunct1] by simp
  have c: "peerConnection (handleRemoteAnswer False second_answer
         (handleRemoteAnswer True first_answer call_state))
       = Some \<lparr>remoteDescription = Some first_answer\<rparr>"
    using r [THEN conjunct2, THEN conjunct2] by simp
  from a b c show ?thesis by blast
qed

text \<open>
  Claim C4 as stated fails: after a first answer has been applied, a second invocation
  of the handler, with a description the peer connection accepts, replaces the remote
  description.
\<close>

theorem second_answer_counterexample:
  "peerConnection (handleRemoteAnswer True first_answer call_state)
     = Some \<lparr>remoteDescription = Some first_answer\<rparr>
   \<and> peerConnection (handleRemoteAnswer True second_answer
         (handleRemoteAnswer True first_answer call_state))
       = Some \<lparr>remoteDescription = Some second_answer\<rparr>
   \<and> second_answer \<noteq> first_answer"
  by (simp add: handleRemoteAnswer_def call_state_def open_state_eq constructor_def
      first_answer_def second_answer_def)

text \<open>
  Claim C8, as the code has it. When applying the remote description fails, the handler
  logs the error and calls the error handler, if one is registered, with a fixed
  message. It triggers no teardown: the peer connection, the local and remote streams
  and the session id are kept, no \<open>close_session\<close> is sent, no track is stopped and no
  peer connection is closed.
\<close>

theorem handleRemoteAnswer_failure:
  "peerConnection s = Some pc \<Longrightarrow>
   handleRemoteAnswer False answer s
     = notify (onError (callbacks s)) [Str ''Loi khi thiet lap ket noi'']
         (s\<lparr>console := console s @ [ConsoleError ''Error handling remote answer:'']\<rparr>)
   \<and> peerConnection (handleRemoteAnswer False answer s) = Some pc
   \<and> localStream (handleRemoteAnswer False answer s) = localStream s
   \<and> remoteStream (handleRemoteAnswer False answer s) = remoteStream s
   \<and> sessionId (handleRemoteAnswer False answer s) = sessionId s
   \<and> sent (handleRemoteAnswer False answer s) = sent s
   \<and> stopped (handleRemoteAnswer False answer s) = stopped s
   \<and> closed (handleRemoteAnswer False answer s) = closed s
   \<and> (onError (callbacks s) = Some (User l) \<longrightarrow>
        notified (handleRemoteAnswer False answer s)
          = notified s @ [(l, [Str ''Loi khi thiet lap ket noi''])])"
  by (simp add: handleRemoteAnswer_def Let_def notify_frame) (simp add: notify_def)

theorem handleRemoteAnswer_failure_witness:
  "peerConnection call_state = Some \<lparr>remoteDescription = None\<rparr>
   \<and> onError (callbacks call_state) = Some (User 0)
   \<and> sessionId (handleRemoteAnswer False first_answer call_state) = Str ''s1''
   \<and> notified (handleRemoteAnswer False first_answer call_state)
       = [(0, [Str ''Loi khi thiet lap ket noi''])]"
proof -
  have a: "peerConnection call_state = Some \<lparr>remoteDescription = None\<rparr>"
    by (simp add: call_state_def open_state_eq constructor_def)
  have b: "onError (callbacks call_state) = Some (User 0)"
    and c: "sessionId call_state = Str ''s1''" and d: "notified call_state = []"
    by (simp_all add: call_state_def open_state_eq constructor_def no_callbacks_def)
  note r = handleRemoteAnswer_failure [OF a, of first_answer 0]
  have e: "sessionId (handleRemoteAnswer False first_answer call_state) = Str ''s1''"
    using r [THEN conjunct2, THEN conjunct2, THEN conjunct2, THEN conjunct2, THEN conjunct1] c
    by simp
  have f: "notified (handleRemoteAnswer False first_answer call_state)
       = [(0, [Str ''Loi khi thiet lap ket noi''])]"
    using r [THEN conjunct2, THEN conjunct2, THEN conjunct2, THEN conjunct2, THEN conjunct2,
          THEN conjunct2, THEN conjunct2, THEN conjunct2] b d
    by simp
  from a b e f show ?thesis by blast
qed

text \<open>
  Claim C8 as stated fails: after a failed answer the call is still up (peer connection
  and session id kept, nothing stopped, nothing sent, only the error handler called),
  while \<open>endCall\<close> from the same state clears both, stops the two tracks, sends
  \<open>close_session\<close> and calls the call-ended handler.
\<close>

theorem negotiation_failure_counterexample:
  "peerConnection (handleRemoteAnswer False first_answer call_state)
     = Some \<lparr>remoteDescription = None\<rparr>
   \<and> sessionId (handleRemoteAnswer False first_answer call_state) = Str ''s1''
   \<and> stopped (handleRemoteAnswer False first_answer call_state) = []
   \<and> sent (handleRemoteAnswer False first_answer call_state) = []
   \<and> notified (handleRemoteAnswer False first_answer call_state)
       = [(0, [Str ''Loi khi thiet lap ket noi''])]
   \<and> peerConnection (snd (endCall call_state)) = None
   \<and> sessionId (snd (endCall call_state)) = Null
   \<and> stopped (snd (endCall call_state)) = [0, 1]
   \<and> sent (snd (endCall call_state)) = [(0, close_session (Str ''s1''))]
   \<and> notified (snd (endCall call_state)) = [(1, [])]"
  by (simp add: handleRemoteAnswer_def endCall_def websocket_send_def endCall_reset_def
      notify_def Let_def call_state_def open_state_eq constructor_def no_callbacks_def)

subsection \<open>Languages\<close>

text \<open>
  Claim C5, as the code has it. With no truthy session id, or with the connection flag
  not set, \<open>setLanguages\<close> sends nothing and changes nothing; it logs one error line and
  returns normally, so the caller is given no error. With a truthy session id, the flag
  set and the socket OPEN, each call returns normally after sending exactly one
  \<open>set_languages\<close> message that carries the session id and the two languages passed.
\<close>

theorem setLanguages_log_or_send:
  "(\<not> truthy (sessionId s) \<or> \<not> isConnected s \<longrightarrow>
      setLanguages sourceLang targetLang s
        = (Normal, s\<lparr>console := console s @
             [ConsoleError ''Cannot set languages: No active session or connection'']\<rparr>))
   \<and> (truthy (sessionId s) \<and> isConnected s \<and> websocket s = Some w \<and> readyState s w = OPEN
        \<longrightarrow>
      setLanguages sourceLang targetLang s
        = (Normal, s\<lparr>sent := sent s @
             [(w, set_languages (sessionId s) sourceLang targetLang)]\<rparr>))"
  by (simp add: setLanguages_def websocket_send_open)

theorem setLanguages_log_or_send_witness:
  "\<not> truthy (sessionId constructor)
   \<and> fst (setLanguages (Str ''vi'') (Str ''en'') constructor) = Normal
   \<and> sent (snd (setLanguages (Str ''vi'') (Str ''en'') constructor)) = []
   \<and> truthy (sessionId call_state) \<and> isConnected call_state \<and> websocket call_state = Some 0
   \<and> readyState call_state 0 = OPEN
   \<and> sent (snd (setLanguages (Str ''vi'') (Str ''en'') call_state))
       = [(0, set_languages (Str ''s1'') (Str ''vi'') (Str ''en''))]"
proof -
  have a: "\<not> truthy (sessionId constructor)" and a': "sent constructor = []"
    by (simp_all add: constructor_def)
  have b: "truthy (sessionId call_state)" "isConnected call_state"
    "websocket call_state = Some 0" "readyState call_state 0 = OPEN"
    "sent call_state = []" "sessionId call_state = Str ''s1''"
    by (simp_all add: call_state_def open_state_eq constructor_def)
  from setLanguages_log_or_send [of constructor "Str ''vi''" "Str ''en''" 0]
    setLanguages_log_or_send [of call_state "Str ''vi''" "Str ''en''" 0] a a' b
  show ?thesis by simp
qed

text \<open>
  Claim C5 as stated fails in its first half: before any session exists the call
  returns normally. The request is dropped with a logged line and no error reaches the
  caller.
\<close>

theorem setLanguages_counterexample:
  "setLanguages (Str ''vi'') (Str ''en'') constructor
     = (Normal, constructor\<lparr>console :=
          [ConsoleError ''Cannot set languages: No active session or connection'']\<rparr>)"
  by (simp add: setLanguages_def constructor_def)

subsection \<open>Teardown\<close>

lemma endCall_reset_frame:
  "websocket (endCall_reset s) = websocket s
   \<and> peerConnection (endCall_reset s) = peerConnection s
   \<and> localStream (endCall_reset s) = localStream s
   \<and> remoteStream (endCall_reset s) = None
   \<and> sessionId (endCall_reset s) = Null
   \<and> isConnected (endCall_reset s) = isConnected s
   \<and> sent (endCall_reset s) = sent s
   \<and> stopped (endCall_reset s) = stopped s
   \<and> closed (endCall_reset s) = closed s"
  by (simp add: endCall_reset_def Let_def notify_frame)

lemma endCall_reset_idle:
  "remoteStream s = None \<Longrightarrow> sessionId s = Null \<Longrightarrow>
   endCall_reset s = notify (onCallEnded (callbacks s)) [] s"
proof -
  assume a: "remoteStream s = None" "sessionId s = Null"
  have "s\<lparr>remoteStream := None, sessionId := Null\<rparr> = s"
    using a by (cases s) simp
  then show ?thesis by (simp add: endCall_reset_def Let_def)
qed

lemma endCall_cleared:
  "fst (endCall s) = Normal \<Longrightarrow>
   peerConnection (snd (endCall s)) = None \<and> localStream (snd (endCall s)) = None
   \<and> remoteStream (snd (endCall s)) = None \<and> sessionId (snd (endCall s)) = Null"
  by (auto simp add: endCall_def websocket_send_def Let_def endCall_reset_frame
      split: option.splits if_splits ready_state.splits)

lemma endCall_idle:
  "peerConnection s = None \<Longrightarrow> localStream s = None \<Longrightarrow> remoteStream s = None \<Longrightarrow>
   sessionId s = Null \<Longrightarrow>
   endCall s = (Normal, notify (onCallEnded (callbacks s)) [] s)"
  by (simp add: endCall_def endCall_reset_idle)

lemma endCall_stopped:
  "stopped (snd (endCall s))
     = stopped s @ (case localStream s of None \<Rightarrow> [] | Some tracks \<Rightarrow> tracks)"
  by (auto simp add: endCall_def websocket_send_def Let_def endCall_reset_frame
      split: option.splits ready_state.splits)

lemma endCall_notified_User:
  "fst (endCall s) = Normal \<Longrightarrow> onCallEnded (callbacks s) = Some (User l) \<Longrightarrow>
   notified (snd (endCall s)) = notified s @ [(l, [])]
   \<and> callbacks (snd (endCall s)) = callbacks s"
  by (auto simp add: endCall_def websocket_send_def Let_def endCall_reset_def notify_def
      split: option.splits if_splits ready_state.splits)

text \<open>
  Claim C1, as the code has it. Let a first \<open>endCall\<close> have completed. The second call
  in succession does nothing but call the call-ended handler again. So across both calls
  every track of the local stream held at the start is stopped once and no track is
  stopped twice (when no local stream is held, nothing is stopped); but a registered
  call-ended handler is called by each of the two calls, twice in total.
\<close>

theorem endCall_twice:
  "fst (endCall s) = Normal \<Longrightarrow>
   endCall (snd (endCall s))
     = (Normal, notify (onCallEnded (callbacks (snd (endCall s)))) [] (snd (endCall s)))
   \<and> stopped (snd (endCall (snd (endCall s))))
       = stopped s @ (case localStream s of None \<Rightarrow> [] | Some tracks \<Rightarrow> tracks)
   \<and> (onCallEnded (callbacks s) = Some (User l) \<longrightarrow>
        notified (snd (endCall (snd (endCall s)))) = notified s @ [(l, []), (l, [])])"
proof -
  assume n: "fst (endCall s) = Normal"
  let ?s1 = "snd (endCall s)"
  have idle: "endCall ?s1 = (Normal, notify (onCallEnded (callbacks ?s1)) [] ?s1)"
    using endCall_cleared [OF n] by (simp add: endCall_idle)
  have st: "stopped (snd (endCall ?s1))
       = stopped s @ (case localStream s of None \<Rightarrow> [] | Some tracks \<Rightarrow> tracks)"
    using endCall_cleared [OF n] by (simp add: endCall_stopped)
  have nt: "notified (snd (endCall ?s1)) = notified s @ [(l, []), (l, [])]"
    if u: "onCallEnded (callbacks s) = Some (User l)"
    using endCall_notified_User [OF n u] u by (simp add: idle notify_def)
  from idle st nt show ?thesis by blast
qed

theorem endCall_twice_witness:
  "fst (endCall call_state) = Normal
   \<and> stopped (snd (endCall (snd (endCall call_state)))) = [0, 1]
   \<and> notified (snd (endCall (snd (endCall call_state)))) = [(1, []), (1, [])]"
  using endCall_twice [of call_state 1]
  by (simp add: call_state_def open_state_eq constructor_def no_callbacks_def endCall_def
      websocket_send_def endCall_reset_def notify_def Let_def)

text \<open>
  Claim C1 as stated fails: from a call in progress with a call-ended handler
  registered, two calls of \<open>endCall\<close> in succession both complete, and the handler has
  been called twice, not once.
\<close>

theorem endCall_twice_counterexample:
  "fst (endCall call_state) = Normal
   \<and> fst (endCall (snd (endCall call_state))) = Normal
   \<and> notified call_state = []
   \<and> length (notified (snd (endCall (snd (endCall call_state))))) = 2"
  by (simp add: call_state_def open_state_eq constructor_def no_callbacks_def endCall_def
      websocket_send_def endCall_reset_def notify_def Let_def)

text \<open>
  The \<open>close_session\<close> request of \<open>endCall\<close>. With a truthy session id, the flag set and
  the socket OPEN, exactly one \<open>close_session\<close> with that id is sent; with no truthy
  session id or with the flag not set, nothing is sent. In both cases the call returns
  and the session id and the remote stream are cleared.
\<close>

lemma endCall_close_session:
  "(truthy (sessionId s) \<and> isConnected s \<and> websocket s = Some w \<and> readyState s w = OPEN
      \<longrightarrow>
      fst (endCall s) = Normal
      \<and> sent (snd (endCall s)) = sent s @ [(w, close_session (sessionId s))]
      \<and> sessionId (snd (endCall s)) = Null \<and> remoteStream (snd (endCall s)) = None)
   \<and> (\<not> (truthy (sessionId s) \<and> isConnected s) \<longrightarrow>
      fst (endCall s) = Normal
      \<and> sent (snd (endCall s)) = sent s
      \<and> sessionId (snd (endCall s)) = Null \<and> remoteStream (snd (endCall s)) = None)"
  by (auto simp add: endCall_def websocket_send_def Let_def endCall_reset_def notify_frame
      split: option.splits)

text \<open>
  Claim C9. The claim asks that the session id and the remote stream be cleared by
  every teardown, whether or not the channel is open. The test before the send is
  \<open>this.sessionId && this.isConnected\<close>; it does not look at the socket, as the test in
  \<open>disconnect\<close> does (\<open>this.websocket && this.isConnected\<close>). In \<open>stale_open_state\<close> the
  flag is set, the session id is \<open>s1\<close> and the socket is null. There \<open>endCall\<close> does not
  return: the send throws a TypeError before the reset, so nothing is sent and the
  session id is not cleared. (The same unguarded send throws on a socket that is still
  CONNECTING.)
\<close>

theorem endCall_null_socket:
  "isConnected stale_open_state \<and> websocket stale_open_state = None
   \<and> sessionId stale_open_state = Str ''s1''
   \<and> endCall stale_open_state = (Throw TypeError, stale_open_state)
   \<and> sessionId (snd (endCall stale_open_state)) = Str ''s1''"
  by (simp add: stale_open_state_eq endCall_def websocket_send_def constructor_def)

end
